theory Spec2Isabelle
  imports Main "HOL-Library.Word"
begin

section \<open>Scalars of the native module\<close>

text \<open>
  \<open>src/native/portaudio.cc\<close> is a Node add-on over PortAudio. Its scalars are C++ machine
  values: \<open>float\<close> and \<open>double\<close> are kept as their IEEE-754 bit patterns, so that "the same
  bits" and a NaN are both expressible; \<open>uint32_t\<close> is a 32-bit word; \<open>unsigned long\<close> is a
  64-bit word; \<open>int\<close> values (device indices, channel counts, \<open>PaError\<close> codes) never take part
  in arithmetic that could overflow and are integers.
\<close>

unbundle bit_operations_syntax

type_synonym float = "32 word"
type_synonym double = "64 word"
type_synonym PaError = int
type_synonym PaStream = nat

text \<open>
  The comparisons of C++ on \<open>float\<close>: a NaN (exponent all ones, mantissa not zero) compares
  false with everything under \<open><\<close> and \<open>></\<close> and true under \<open>!=\<close>; otherwise the sign bit and
  the magnitude order the values, and the two zeros are equal.
\<close>

definition float_isnan :: "float \<Rightarrow> bool" where
  "float_isnan x = (0x7F800000 < unat x mod 0x80000000)"

definition float_ord :: "float \<Rightarrow> int" where
  "float_ord x = (if unat x < 0x80000000 then int (unat x) else - int (unat x mod 0x80000000))"

definition float_lt :: "float \<Rightarrow> float \<Rightarrow> bool" where
  "float_lt a b = (\<not> float_isnan a \<and> \<not> float_isnan b \<and> float_ord a < float_ord b)"

definition float_gt :: "float \<Rightarrow> float \<Rightarrow> bool" where
  "float_gt a b = float_lt b a"

definition float_ne :: "float \<Rightarrow> float \<Rightarrow> bool" where
  "float_ne a b = (float_isnan a \<or> float_isnan b \<or> float_ord a \<noteq> float_ord b)"

definition float_0 :: float where "float_0 = 0x00000000"
definition float_1 :: float where "float_1 = 0x3F800000"
definition float_2 :: float where "float_2 = 0x40000000"

text \<open>The same comparisons on \<open>double\<close>.\<close>

definition double_isnan :: "double \<Rightarrow> bool" where
  "double_isnan x = (0x7FF0000000000000 < unat x mod 0x8000000000000000)"

definition double_ord :: "double \<Rightarrow> int" where
  "double_ord x =
     (if unat x < 0x8000000000000000 then int (unat x)
      else - int (unat x mod 0x8000000000000000))"

definition double_le :: "double \<Rightarrow> double \<Rightarrow> bool" where
  "double_le a b = (\<not> double_isnan a \<and> \<not> double_isnan b \<and> double_ord a \<le> double_ord b)"

definition double_gt :: "double \<Rightarrow> double \<Rightarrow> bool" where
  "double_gt a b = (\<not> double_isnan a \<and> \<not> double_isnan b \<and> double_ord b < double_ord a)"

definition double_0 :: double where "double_0 = 0x0000000000000000"
definition double_0_05 :: double where "double_0_05 = 0x3FA999999999999A"
definition double_44100 :: double where "double_44100 = 0x40E5888000000000"

text \<open>\<open>std::to_string\<close> on an \<open>int\<close>: the decimal digits, with a minus sign when negative.\<close>

fun digits :: "nat \<Rightarrow> string" where
  "digits n =
     (if n < 10 then [''0123456789'' ! n]
      else digits (n div 10) @ [''0123456789'' ! (n mod 10)])"

declare digits.simps [simp del]

definition to_string :: "int \<Rightarrow> string" where
  "to_string i = (if i < 0 then CHR ''-'' # digits (nat (- i)) else digits (nat i))"

section \<open>Values crossing the N-API boundary\<close>

text \<open>
  A JavaScript number reaches the module as an opaque \<open>Napi::Number\<close>; the code reads it only
  through the four accessors below, so a number is the record of what they return. An
  options object is read only through \<open>Has\<close> and \<open>Get(...).As<Napi::Number>()\<close>, so it is a
  partial map from property names to numbers; a function or typed array that JavaScript has
  given such properties and that is passed as the options argument is read by the code in
  the same way and no other, and is that map too. A \<open>Buffer\<close> or typed array refers to its
  bytes by an address into the memory of the state. The memory holds those bytes as the
  \<open>float\<close>s that \<open>Napi::Buffer<float>\<close> reads there: its \<open>Length()\<close> is the byte length over
  \<open>sizeof(float)\<close>, whatever the element type of the array. An \<open>Int16Array\<close> of four
  elements is eight bytes and so two \<open>float\<close>s.
\<close>

record napi_number =
  Int32Value :: int
  Uint32Value :: "32 word"
  FloatValue :: float
  DoubleValue :: double

datatype napi_typedarray_type =
    napi_int8_array | napi_uint8_array | napi_uint8_clamped_array
  | napi_int16_array | napi_uint16_array | napi_int32_array | napi_uint32_array
  | napi_float32_array | napi_float64_array | napi_bigint64_array | napi_biguint64_array

datatype napi_value =
    Number napi_number
  | Function nat
  | Object "string \<Rightarrow> napi_number option"
  | Buffer nat
  | TypedArray napi_typedarray_type nat
  | Undefined

text \<open>\<open>info[i]\<close>: N-API yields \<open>undefined\<close> for an argument that was not passed.\<close>

definition arg :: "napi_value list \<Rightarrow> nat \<Rightarrow> napi_value" where
  "arg info i = (if i < length info then info ! i else Undefined)"

fun IsNumber :: "napi_value \<Rightarrow> bool" where
  "IsNumber (Number n) = True"
| "IsNumber v = False"

fun IsFunction :: "napi_value \<Rightarrow> bool" where
  "IsFunction (Function f) = True"
| "IsFunction v = False"

text \<open>
  \<open>IsObject\<close> of N-API holds of every value of type object or function; buffers and typed
  arrays are objects.
\<close>

fun IsObject :: "napi_value \<Rightarrow> bool" where
  "IsObject (Number n) = False"
| "IsObject Undefined = False"
| "IsObject v = True"

text \<open>
  \<open>IsBuffer\<close> is \<open>napi_is_buffer\<close>, which in Node holds of every view on an array buffer: of a
  \<open>Buffer\<close> and of a typed array of any element type. A \<open>Buffer\<close> is a \<open>Uint8Array\<close>, so
  \<open>IsTypedArray\<close> holds of it as well.
\<close>

fun IsBuffer :: "napi_value \<Rightarrow> bool" where
  "IsBuffer (Buffer a) = True"
| "IsBuffer (TypedArray ty a) = True"
| "IsBuffer v = False"

fun IsTypedArray :: "napi_value \<Rightarrow> bool" where
  "IsTypedArray (Buffer a) = True"
| "IsTypedArray (TypedArray ty a) = True"
| "IsTypedArray v = False"

primrec TypedArrayType :: "napi_value \<Rightarrow> napi_typedarray_type" where
  "TypedArrayType (Buffer a) = napi_uint8_array"
| "TypedArrayType (TypedArray ty a) = ty"

text \<open>The address \<open>Data()\<close> gives for a buffer or typed array.\<close>

primrec Data :: "napi_value \<Rightarrow> nat" where
  "Data (Buffer a) = a"
| "Data (TypedArray ty a) = a"

text \<open>
  What a native function hands back to JavaScript: a value, or a pending exception
  (\<open>ThrowAsJavaScriptException\<close>). \<open>Segfault\<close> stands for undefined behaviour of the C++
  code: a null or dangling pointer is dereferenced.
\<close>

datatype failure = TypeError string | Error string | Segfault

datatype js_return = Returns_Undefined | Returns_Number "32 word"

type_synonym result = "failure + js_return"

section \<open>PortAudio, the backend\<close>

text \<open>
  PortAudio is outside the repository. Every call the module makes that creates, drives or
  destroys a stream, and every call on a thread-safe function of N-API, is appended to the
  trace of the state in program order. What PortAudio answers is a parameter: a record of
  answers, one per entry point, arbitrary in every theorem. The read-only queries
  (\<open>Pa_GetDeviceCount\<close>, \<open>Pa_GetDeviceInfo\<close>, \<open>Pa_GetDefaultOutputDevice\<close>,
  \<open>Pa_GetErrorText\<close>) are answered from the same record and leave no trace.
  The constants have the values of PortAudio's public header \<open>portaudio.h\<close>; the general
  theorems use them by name only.
\<close>

definition paNoError :: PaError where "paNoError = 0"
definition paFloat32 :: nat where "paFloat32 = 1"
definition paNoFlag :: nat where "paNoFlag = 0"
definition paOutputUnderflow :: "64 word" where "paOutputUnderflow = 0x4"
definition paOutputOverflow :: "64 word" where "paOutputOverflow = 0x8"
definition paPrimingOutput :: "64 word" where "paPrimingOutput = 0x10"

datatype PaStreamCallbackResult = paContinue | paComplete | paAbort

datatype napi_status = napi_ok | napi_closing

record PaDeviceInfo =
  defaultLowOutputLatency :: double

record PaStreamParameters =
  device :: int
  channelCount :: int
  sampleFormat :: nat
  suggestedLatency :: double

text \<open>
  The payload of a call queued on a thread-safe function: the buffer view of a fill request
  (the output pointer and its length in samples), or the event object of a notification
  (its type and message).
\<close>

datatype js_call = Fill_Buffer nat "64 word" | Stream_Event string string

text \<open>
  In \<open>Call_Pa_OpenStream\<close> the flag is true when \<open>AudioCallback\<close> is passed as the stream
  callback, and the last argument is \<open>userData\<close> (\<open>None\<close> is \<open>nullptr\<close>).
\<close>

datatype event =
    Call_Pa_OpenDefaultStream int int nat double "64 word"
  | Call_Pa_OpenStream PaStreamParameters double "64 word" nat bool "nat option"
  | Call_Pa_StartStream PaStream
  | Call_Pa_StopStream PaStream
  | Call_Pa_CloseStream PaStream
  | Call_Pa_WriteStream PaStream "float list" nat
  | ThreadSafeFunction_New nat nat string
  | ThreadSafeFunction_Release nat
  | ThreadSafeFunction_BlockingCall nat js_call

record backend =
  Pa_GetDeviceCount :: int
  Pa_GetDefaultOutputDevice :: int
  Pa_GetDeviceInfo :: "int \<Rightarrow> PaDeviceInfo option"
  Pa_GetErrorText :: "PaError \<Rightarrow> string"
  Pa_OpenDefaultStream :: "PaError \<times> PaStream"
  Pa_OpenStream :: "PaStreamParameters \<Rightarrow> PaError \<times> PaStream"
  Pa_StartStream :: "PaStream \<Rightarrow> PaError"
  Pa_StopStream :: "PaStream \<Rightarrow> PaError"
  Pa_CloseStream :: "PaStream \<Rightarrow> PaError"
  Pa_WriteStream :: "PaStream \<Rightarrow> float list \<Rightarrow> nat \<Rightarrow> PaError"

section \<open>The state of the module\<close>

text \<open>
  The globals of the source, by name. A \<open>std::unique_ptr\<close> owns its object, so
  \<open>g_audioCallbackTsfn\<close> and \<open>g_eventCallbackTsfn\<close> hold the object itself or nothing. A
  \<open>Napi::ThreadSafeFunction\<close> object has an address (handed to PortAudio as \<open>userData\<close>), the
  JavaScript function it calls and its resource name. \<open>next_tsfn\<close> is the address
  \<open>std::make_unique\<close> gives the next object: an address is never given twice, so a pointer to
  a destroyed object stays invalid. \<open>memory\<close> holds the backing stores of the JavaScript
  buffers.
\<close>

record StreamInfo =
  stream :: PaStream
  volume :: float

record ThreadSafeFunction =
  tsfn_addr :: nat
  jsCallback :: nat
  resource_name :: string

record state =
  g_audioCallbackTsfn :: "ThreadSafeFunction option"
  g_eventCallbackTsfn :: "ThreadSafeFunction option"
  g_streams :: "32 word \<Rightarrow> StreamInfo option"
  g_nextStreamId :: "32 word"
  next_tsfn :: nat
  memory :: "nat \<Rightarrow> float list option"
  trace :: "event list"

definition emit :: "event \<Rightarrow> state \<Rightarrow> state" where
  "emit e s = s\<lparr>trace := trace s @ [e]\<rparr>"

definition GetStreamInfoById :: "state \<Rightarrow> 32 word \<Rightarrow> StreamInfo option" where
  "GetStreamInfoById s streamId = g_streams s streamId"

text \<open>\<open>uint32_t streamId = g_nextStreamId++; g_streams[streamId] = {stream, 1.0f};\<close>\<close>

definition register_stream :: "PaStream \<Rightarrow> state \<Rightarrow> result \<times> state" where
  "register_stream st s =
     (let streamId = g_nextStreamId s
      in (Inr (Returns_Number streamId),
          s\<lparr>g_nextStreamId := streamId + 1,
            g_streams := (g_streams s)(streamId \<mapsto> \<lparr>stream = st, volume = float_1\<rparr>)\<rparr>))"

text \<open>
  \<open>if (g_audioCallbackTsfn) { g_audioCallbackTsfn->Release(); g_audioCallbackTsfn.reset(); }\<close>
  and the same for the event direction. \<open>Release\<close> is the N-API call; \<open>reset\<close> destroys the
  object and nulls the pointer.
\<close>

definition release_audio :: "state \<Rightarrow> state" where
  "release_audio s =
     (case g_audioCallbackTsfn s of
        None \<Rightarrow> s
      | Some t \<Rightarrow> (emit (ThreadSafeFunction_Release (tsfn_addr t)) s)\<lparr>g_audioCallbackTsfn := None\<rparr>)"

definition release_event :: "state \<Rightarrow> state" where
  "release_event s =
     (case g_eventCallbackTsfn s of
        None \<Rightarrow> s
      | Some t \<Rightarrow> (emit (ThreadSafeFunction_Release (tsfn_addr t)) s)\<lparr>g_eventCallbackTsfn := None\<rparr>)"

text \<open>
  \<open>std::make_unique<Napi::ThreadSafeFunction>(Napi::ThreadSafeFunction::New(env, f, name, 0, 1))\<close>:
  a new object at a fresh address.
\<close>

definition new_tsfn :: "nat \<Rightarrow> string \<Rightarrow> state \<Rightarrow> ThreadSafeFunction \<times> state" where
  "new_tsfn f name s =
     (let t = \<lparr>tsfn_addr = next_tsfn s, jsCallback = f, resource_name = name\<rparr>
      in (t, (emit (ThreadSafeFunction_New (tsfn_addr t) f name) s)\<lparr>next_tsfn := Suc (next_tsfn s)\<rparr>))"

text \<open>
  Dereferencing a raw \<open>Napi::ThreadSafeFunction *\<close>: the live objects are those the two
  globals own.
\<close>

definition deref_tsfn :: "state \<Rightarrow> nat option \<Rightarrow> ThreadSafeFunction option" where
  "deref_tsfn s p =
     (case p of
        None \<Rightarrow> None
      | Some a \<Rightarrow>
          (case g_audioCallbackTsfn s of
             Some t \<Rightarrow>
               if tsfn_addr t = a then Some t
               else (case g_eventCallbackTsfn s of
                       Some u \<Rightarrow> if tsfn_addr u = a then Some u else None
                     | None \<Rightarrow> None)
           | None \<Rightarrow>
               (case g_eventCallbackTsfn s of
                  Some u \<Rightarrow> if tsfn_addr u = a then Some u else None
                | None \<Rightarrow> None)))"

text \<open>
  \<open>BlockingCall\<close> on a live thread-safe function created with an unbounded queue
  (\<open>maxQueueSize = 0\<close>): the call is queued for the JavaScript thread and \<open>napi_ok\<close> comes
  back.
\<close>

definition BlockingCall :: "ThreadSafeFunction \<Rightarrow> js_call \<Rightarrow> state \<Rightarrow> napi_status \<times> state" where
  "BlockingCall t c s = (napi_ok, emit (ThreadSafeFunction_BlockingCall (tsfn_addr t) c) s)"

section \<open>The exported functions\<close>

text \<open>
  Each exported function takes PortAudio's answers, the argument list \<open>info\<close> and the state,
  and gives back its result and the new state. \<open>Init\<close>, \<open>Terminate\<close>, \<open>GetVersion\<close>,
  \<open>GetDevices\<close> and \<open>IsOutputFormatSupported\<close> take no part in what is proved below and
  are left out. \<open>As<Napi::Number>()\<close> and \<open>As<Napi::Function>()\<close> are unchecked casts: the
  source calls them only after the matching \<open>Is...\<close> test.
\<close>

primrec As_Number :: "napi_value \<Rightarrow> napi_number" where
  "As_Number (Number n) = n"

primrec As_Function :: "napi_value \<Rightarrow> nat" where
  "As_Function (Function f) = f"

text \<open>
  The properties of a value taken as an options object. The values \<open>Function f\<close>,
  \<open>Buffer a\<close> and \<open>TypedArray ty a\<close> stand for a function, a buffer and a typed array that
  carry none of the five option properties; one that carries some and is passed as the
  options is the value \<open>Object opts\<close> of its properties, as said above.
\<close>

fun As_Object :: "napi_value \<Rightarrow> string \<Rightarrow> napi_number option" where
  "As_Object (Object opts) = opts"
| "As_Object v = Map.empty"

subsection \<open>OpenDefaultStream\<close>

definition OpenDefaultStream :: "backend \<Rightarrow> napi_value list \<Rightarrow> state \<Rightarrow> result \<times> state" where
  "OpenDefaultStream pa info s =
     (if g_streams s \<noteq> Map.empty then (Inl (Error ''Stream already open''), s)
      else
        let s1 = emit (Call_Pa_OpenDefaultStream 0 2 paFloat32 double_44100 256) s;
            (err, st) = Pa_OpenDefaultStream pa
        in if err \<noteq> paNoError then (Inl (Error (Pa_GetErrorText pa err)), s1)
           else
             let s2 = emit (Call_Pa_StartStream st) s1;
                 err2 = Pa_StartStream pa st
             in if err2 \<noteq> paNoError
                then (Inl (Error (Pa_GetErrorText pa err2)), emit (Call_Pa_CloseStream st) s2)
                else register_stream st s2)"

subsection \<open>OpenStream\<close>

text \<open>
  \<open>Pa_GetDeviceInfo(deviceIndex)->defaultLowOutputLatency\<close> dereferences what PortAudio
  returns without a test; a null answer is a fault.
\<close>

definition OpenStream :: "backend \<Rightarrow> napi_value list \<Rightarrow> state \<Rightarrow> result \<times> state" where
  "OpenStream pa info s =
     (if length info < 4 \<or> \<not> IsNumber (arg info 0) \<or> \<not> IsNumber (arg info 1)
         \<or> \<not> IsNumber (arg info 2) \<or> \<not> IsNumber (arg info 3)
      then (Inl (TypeError ''Expected device index, sample rate, channels, and framesPerBuffer''), s)
      else
        let deviceIndex = Int32Value (As_Number (arg info 0));
            sampleRate = DoubleValue (As_Number (arg info 1));
            channels = Int32Value (As_Number (arg info 2));
            framesPerBuffer = (ucast (Uint32Value (As_Number (arg info 3))) :: 64 word);
            numDevices = Pa_GetDeviceCount pa
        in if deviceIndex < 0 \<or> deviceIndex \<ge> numDevices
           then (Inl (Error (''Invalid device index: '' @ to_string deviceIndex
                              @ ''. Available devices: 0-'' @ to_string (numDevices - 1))), s)
           else if channels \<le> 0 then (Inl (Error ''Channel count must be positive''), s)
           else if double_le sampleRate double_0 then (Inl (Error ''Sample rate must be positive''), s)
           else if framesPerBuffer = 0 then (Inl (Error ''framesPerBuffer must be positive''), s)
           else
             (case Pa_GetDeviceInfo pa deviceIndex of
                None \<Rightarrow> (Inl Segfault, s)
              | Some devInfo \<Rightarrow>
                  let outputParams =
                        \<lparr>device = deviceIndex, channelCount = channels, sampleFormat = paFloat32,
                         suggestedLatency = defaultLowOutputLatency devInfo\<rparr>;
                      s1 = emit (Call_Pa_OpenStream outputParams sampleRate framesPerBuffer
                                   paNoFlag False None) s;
                      (err, st) = Pa_OpenStream pa outputParams
                  in if err \<noteq> paNoError
                     then (Inl (Error (''PortAudio error in Pa_OpenStream: ''
                                        @ Pa_GetErrorText pa err)), s1)
                     else
                       let s2 = emit (Call_Pa_StartStream st) s1;
                           err2 = Pa_StartStream pa st
                       in if err2 \<noteq> paNoError
                          then (Inl (Error (''PortAudio error in Pa_StartStream: ''
                                             @ Pa_GetErrorText pa err2)),
                                emit (Call_Pa_CloseStream st) s2)
                          else register_stream st s2))"

subsection \<open>WriteStream\<close>

text \<open>
  \<open>for (size_t i = 0; i < len; ++i) data[i] *= volume;\<close> The product of two \<open>float\<close>s is the
  hardware's; it is the parameter \<open>mul\<close>.
\<close>

function scale_loop :: "(float \<Rightarrow> float \<Rightarrow> float) \<Rightarrow> nat \<Rightarrow> nat \<Rightarrow> float \<Rightarrow> float list \<Rightarrow> float list" where
  "scale_loop mul i len vol data =
     (if i < len then scale_loop mul (Suc i) len vol (data[i := mul (data ! i) vol]) else data)"
  by pat_completeness auto
termination
  by (relation "measure (\<lambda>(mul, i, len, vol, data). len - i)") auto

declare scale_loop.simps [simp del]

text \<open>
  The part of \<open>WriteStream\<close> after \<open>data\<close> and \<open>len\<close> are read from the buffer at address
  \<open>a\<close>. A buffer without a backing store has a null \<open>data\<close> and length zero. The loop writes
  into the caller's buffer, so the memory of the state changes.

  \<open>WriteStream\<close> tests \<open>IsBuffer\<close> first, so a typed array of any element type takes the first
  branch and its bytes are written as \<open>float\<close>s; the test for \<open>napi_float32_array\<close> in the
  second branch is never reached by a typed array.
\<close>

definition write_data :: "(float \<Rightarrow> float \<Rightarrow> float) \<Rightarrow> backend \<Rightarrow> StreamInfo \<Rightarrow> nat \<Rightarrow> state \<Rightarrow> result \<times> state" where
  "write_data mul pa sinfo a s =
     (case memory s a of
        None \<Rightarrow> (Inl (Error ''Empty buffer''), s)
      | Some data \<Rightarrow>
          let len = length data
          in if len = 0 then (Inl (Error ''Empty buffer''), s)
             else
               let vol = volume sinfo;
                   data' = (if float_ne vol float_1 then scale_loop mul 0 len vol data else data);
                   s1 = s\<lparr>memory := (memory s)(a \<mapsto> data')\<rparr>;
                   s2 = emit (Call_Pa_WriteStream (stream sinfo) data' (len div 2)) s1;
                   err = Pa_WriteStream pa (stream sinfo) data' (len div 2)
               in if err \<noteq> paNoError then (Inl (Error (Pa_GetErrorText pa err)), s2)
                  else (Inr Returns_Undefined, s2))"

definition WriteStream :: "(float \<Rightarrow> float \<Rightarrow> float) \<Rightarrow> backend \<Rightarrow> napi_value list \<Rightarrow> state \<Rightarrow> result \<times> state" where
  "WriteStream mul pa info s =
     (if length info < 2 \<or> \<not> IsNumber (arg info 1)
      then (Inl (TypeError ''Expected buffer and stream ID''), s)
      else
        let streamId = Uint32Value (As_Number (arg info 1))
        in case GetStreamInfoById s streamId of
             None \<Rightarrow> (Inl (Error ''Stream not open''), s)
           | Some sinfo \<Rightarrow>
               if IsBuffer (arg info 0) then write_data mul pa sinfo (Data (arg info 0)) s
               else if IsTypedArray (arg info 0)
               then if TypedArrayType (arg info 0) \<noteq> napi_float32_array
                    then (Inl (TypeError ''Expected Float32Array''), s)
                    else write_data mul pa sinfo (Data (arg info 0)) s
               else (Inl (TypeError ''Expected Buffer or Float32Array''), s))"

subsection \<open>CloseStream\<close>

definition CloseStream :: "backend \<Rightarrow> napi_value list \<Rightarrow> state \<Rightarrow> result \<times> state" where
  "CloseStream pa info s =
     (if length info < 1 \<or> \<not> IsNumber (arg info 0) then (Inr Returns_Undefined, s)
      else
        let streamId = Uint32Value (As_Number (arg info 0))
        in case GetStreamInfoById s streamId of
             None \<Rightarrow> (Inr Returns_Undefined, s)
           | Some sinfo \<Rightarrow>
               let st = stream sinfo;
                   s1 = emit (Call_Pa_StopStream st) s;
                   err = Pa_StopStream pa st;
                   (err', s2) = (if err = paNoError
                                 then (Pa_CloseStream pa st, emit (Call_Pa_CloseStream st) s1)
                                 else (err, s1));
                   s3 = s2\<lparr>g_streams := (g_streams s2)(streamId := None)\<rparr>;
                   s4 = release_audio s3;
                   s5 = release_event s4
               in if err' \<noteq> paNoError then (Inl (Error (Pa_GetErrorText pa err')), s5)
                  else (Inr Returns_Undefined, s5))"

subsection \<open>EmitStreamEvent and AudioCallback\<close>

definition EmitStreamEvent :: "string \<Rightarrow> string \<Rightarrow> state \<Rightarrow> state" where
  "EmitStreamEvent etype message s =
     (case g_eventCallbackTsfn s of
        None \<Rightarrow> s
      | Some t \<Rightarrow> snd (BlockingCall t (Stream_Event etype message) s))"

text \<open>
  PortAudio's audio thread calls \<open>AudioCallback\<close> with the output pointer, the frame count,
  the status flags and the \<open>userData\<close> given to \<open>Pa_OpenStream\<close>. \<open>userData\<close> is cast to a
  \<open>Napi::ThreadSafeFunction *\<close> and dereferenced at once.
\<close>

definition AudioCallback :: "nat \<Rightarrow> 64 word \<Rightarrow> 64 word \<Rightarrow> nat option \<Rightarrow> state \<Rightarrow> (failure + PaStreamCallbackResult) \<times> state" where
  "AudioCallback output frameCount statusFlags userData s =
     (case deref_tsfn s userData of
        None \<Rightarrow> (Inl Segfault, s)
      | Some tsfn \<Rightarrow>
          let (status, s1) = BlockingCall tsfn (Fill_Buffer output (frameCount * 2)) s;
              s2 = (if statusFlags AND paOutputUnderflow \<noteq> 0
                    then EmitStreamEvent ''outputUnderflow'' [] s1 else s1);
              s3 = (if statusFlags AND paOutputOverflow \<noteq> 0
                    then EmitStreamEvent ''outputOverflow'' [] s2 else s2);
              s4 = (if statusFlags AND paPrimingOutput \<noteq> 0
                    then EmitStreamEvent ''primingOutput'' [] s3 else s3)
          in (Inr (if status = napi_ok then paContinue else paAbort), s4))"

subsection \<open>SetStreamEventCallback\<close>

definition SetStreamEventCallback :: "napi_value list \<Rightarrow> state \<Rightarrow> result \<times> state" where
  "SetStreamEventCallback info s =
     (if \<not> IsFunction (arg info 0) then (Inl (TypeError ''Expected callback function''), s)
      else
        let jsCallback = As_Function (arg info 0);
            s1 = release_event s;
            (t, s2) = new_tsfn jsCallback ''StreamEventCallback'' s1
        in (Inr Returns_Undefined, s2\<lparr>g_eventCallbackTsfn := Some t\<rparr>))"

subsection \<open>OpenStreamAsync\<close>

text \<open>
  The options of \<open>OpenStreamAsync\<close> with their defaults, as the source reads them into
  \<open>outputParams\<close>, \<open>sampleRate\<close> and \<open>framesPerBuffer\<close>.
\<close>

definition stream_options :: "backend \<Rightarrow> (string \<Rightarrow> napi_number option) \<Rightarrow> PaStreamParameters \<times> double \<times> 64 word" where
  "stream_options pa opts =
     (let dev = (case opts ''device'' of
                   Some n \<Rightarrow> Int32Value n | None \<Rightarrow> Pa_GetDefaultOutputDevice pa);
          channels = (case opts ''channels'' of Some n \<Rightarrow> Int32Value n | None \<Rightarrow> 2);
          sampleRate = (case opts ''sampleRate'' of
                          Some n \<Rightarrow> DoubleValue n | None \<Rightarrow> double_44100);
          framesPerBuffer = (case opts ''framesPerBuffer'' of
                               Some n \<Rightarrow> (ucast (Uint32Value n) :: 64 word) | None \<Rightarrow> 256);
          latency = (case opts ''suggestedLatency'' of
                       Some n \<Rightarrow> DoubleValue n | None \<Rightarrow> double_0);
          outputParams =
            \<lparr>device = dev, channelCount = channels, sampleFormat = paFloat32,
             suggestedLatency =
               (if double_gt latency double_0 then latency
                else (case Pa_GetDeviceInfo pa dev of
                        Some devInfo \<Rightarrow> defaultLowOutputLatency devInfo
                      | None \<Rightarrow> double_0_05))\<rparr>
      in (outputParams, sampleRate, framesPerBuffer))"

definition OpenStreamAsync :: "backend \<Rightarrow> napi_value list \<Rightarrow> state \<Rightarrow> result \<times> state" where
  "OpenStreamAsync pa info s =
     (if g_streams s \<noteq> Map.empty then (Inl (Error ''Stream already open''), s)
      else if \<not> IsObject (arg info 0) \<or> \<not> IsFunction (arg info 1)
      then (Inl (TypeError ''Expected options object and callback''), s)
      else
        let opts = As_Object (arg info 0);
            jsCallback = As_Function (arg info 1);
            (outputParams, sampleRate, framesPerBuffer) = stream_options pa opts;
            (t, s1) = new_tsfn jsCallback ''AudioCallback'' s;
            s2 = s1\<lparr>g_audioCallbackTsfn := Some t\<rparr>;
            s3 = emit (Call_Pa_OpenStream outputParams sampleRate framesPerBuffer
                         paNoFlag True (Some (tsfn_addr t))) s2;
            (err, st) = Pa_OpenStream pa outputParams
        in if err \<noteq> paNoError
           then (Inl (Error (Pa_GetErrorText pa err)), release_audio s3)
           else
             let s4 = emit (Call_Pa_StartStream st) s3;
                 err2 = Pa_StartStream pa st
             in if err2 \<noteq> paNoError
                then (Inl (Error (Pa_GetErrorText pa err2)),
                      release_audio (emit (Call_Pa_CloseStream st) s4))
                else register_stream st s4)"

subsection \<open>SetStreamVolume\<close>

definition SetStreamVolume :: "napi_value list \<Rightarrow> state \<Rightarrow> result \<times> state" where
  "SetStreamVolume info s =
     (if length info < 2 \<or> \<not> IsNumber (arg info 0) \<or> \<not> IsNumber (arg info 1)
      then (Inl (TypeError ''Expected stream ID and volume''), s)
      else
        let streamId = Uint32Value (As_Number (arg info 0));
            v0 = FloatValue (As_Number (arg info 1));
            v1 = (if float_lt v0 float_0 then float_0 else v0);
            v2 = (if float_gt v1 float_2 then float_2 else v1)
        in case GetStreamInfoById s streamId of
             None \<Rightarrow> (Inl (Error ''Stream not open''), s)
           | Some sinfo \<Rightarrow>
               (Inr Returns_Undefined,
                s\<lparr>g_streams := (g_streams s)(streamId \<mapsto> sinfo\<lparr>volume := v2\<rparr>)\<rparr>))"

section \<open>The words of the specification\<close>

text \<open>
  \<open>clamp(v, lo, hi)\<close> as the specification uses it for the volume: \<open>lo\<close> when \<open>v\<close> is below
  \<open>lo\<close>, \<open>hi\<close> when \<open>v\<close> is above \<open>hi\<close>, and \<open>v\<close> itself otherwise.
\<close>

definition spec_clamp :: "float \<Rightarrow> float \<Rightarrow> float \<Rightarrow> float" where
  "spec_clamp v lo hi = (if float_lt v lo then lo else if float_lt hi v then hi else v)"

text \<open>
  The notifications the specification expects of one fill invocation: one name per status
  flag that is set, underflow first, then overflow, then priming.
\<close>

definition spec_notifications :: "64 word \<Rightarrow> string list" where
  "spec_notifications statusFlags =
     (if statusFlags AND paOutputUnderflow \<noteq> 0 then [''outputUnderflow''] else [])
     @ (if statusFlags AND paOutputOverflow \<noteq> 0 then [''outputOverflow''] else [])
     @ (if statusFlags AND paPrimingOutput \<noteq> 0 then [''primingOutput''] else [])"

section \<open>Concrete runs\<close>

text \<open>
  The state of a freshly loaded module, a backend on which every call succeeds, and
  backends that fail at one entry point. The numbers are JavaScript numbers with the four
  views N-API gives of them.
\<close>

definition initial_state :: state where
  "initial_state =
     \<lparr>g_audioCallbackTsfn = None, g_eventCallbackTsfn = None, g_streams = Map.empty,
      g_nextStreamId = 1, next_tsfn = 1, memory = Map.empty, trace = []\<rparr>"

definition backend_ok :: backend where
  "backend_ok =
     \<lparr>Pa_GetDeviceCount = 2, Pa_GetDefaultOutputDevice = 0,
      Pa_GetDeviceInfo =
        (\<lambda>i. if 0 \<le> i \<and> i < 2 then Some \<lparr>defaultLowOutputLatency = double_0_05\<rparr> else None),
      Pa_GetErrorText = (\<lambda>e. if e = 0 then ''Success'' else ''Unanticipated host error''),
      Pa_OpenDefaultStream = (0, 100),
      Pa_OpenStream = (\<lambda>p. (0, 101)),
      Pa_StartStream = (\<lambda>st. 0), Pa_StopStream = (\<lambda>st. 0), Pa_CloseStream = (\<lambda>st. 0),
      Pa_WriteStream = (\<lambda>st data frames. 0)\<rparr>"

definition backend_stop_fails :: backend where
  "backend_stop_fails = backend_ok\<lparr>Pa_StopStream := (\<lambda>st. - 9999)\<rparr>"

definition backend_open_fails :: backend where
  "backend_open_fails = backend_ok\<lparr>Pa_OpenStream := (\<lambda>p. (- 9999, 0))\<rparr>"

definition backend_start_fails :: backend where
  "backend_start_fails = backend_ok\<lparr>Pa_StartStream := (\<lambda>st. - 9999)\<rparr>"

definition number_minus_1 :: napi_number where
  "number_minus_1 =
     \<lparr>Int32Value = - 1, Uint32Value = 0xFFFFFFFF, FloatValue = 0xBF800000,
      DoubleValue = 0xBFF0000000000000\<rparr>"

definition number_0 :: napi_number where
  "number_0 = \<lparr>Int32Value = 0, Uint32Value = 0, FloatValue = 0, DoubleValue = 0\<rparr>"

definition number_1 :: napi_number where
  "number_1 =
     \<lparr>Int32Value = 1, Uint32Value = 1, FloatValue = 0x3F800000,
      DoubleValue = 0x3FF0000000000000\<rparr>"

definition number_2 :: napi_number where
  "number_2 =
     \<lparr>Int32Value = 2, Uint32Value = 2, FloatValue = 0x40000000,
      DoubleValue = 0x4000000000000000\<rparr>"

definition number_3 :: napi_number where
  "number_3 =
     \<lparr>Int32Value = 3, Uint32Value = 3, FloatValue = 0x40400000,
      DoubleValue = 0x4008000000000000\<rparr>"

definition number_256 :: napi_number where
  "number_256 =
     \<lparr>Int32Value = 256, Uint32Value = 256, FloatValue = 0x43800000,
      DoubleValue = 0x4070000000000000\<rparr>"

definition number_44100 :: napi_number where
  "number_44100 =
     \<lparr>Int32Value = 44100, Uint32Value = 44100, FloatValue = 0x472C4400,
      DoubleValue = 0x40E5888000000000\<rparr>"

text \<open>One blocking stream is open: what \<open>openDefaultStream()\<close> leaves behind.\<close>

definition state_default_open :: state where
  "state_default_open = snd (OpenDefaultStream backend_ok [] initial_state)"

text \<open>
  A callback stream is open with fill handler 10, and event handler 20 was registered
  before it: \<open>setStreamEventCallback(f20); openStreamAsync({}, f10)\<close>.
\<close>

definition state_async_open :: state where
  "state_async_open =
     snd (OpenStreamAsync backend_ok [Object Map.empty, Function 10]
            (snd (SetStreamEventCallback [Function 20] initial_state)))"

text \<open>
  A fragment of the multiplication table of IEEE single precision, enough for the runs
  below: \<open>1.0f * 2.0f = 2.0f\<close>, \<open>0.5f * 2.0f = 1.0f\<close>, \<open>-1.0f * 2.0f = -2.0f\<close> and
  \<open>2.0f * 2.0f = 4.0f\<close>. Outside the table it answers the default NaN.
\<close>

definition example_mul :: "float \<Rightarrow> float \<Rightarrow> float" where
  "example_mul x y =
     (case map_of
             [((0x3F800000, 0x40000000), 0x40000000),
              ((0x3F000000, 0x40000000), 0x3F800000),
              ((0xBF800000, 0x40000000), 0xC0000000),
              ((0x40000000, 0x40000000), 0x40800000)] (x, y) of
        Some p \<Rightarrow> p
      | None \<Rightarrow> 0x7FC00000)"

text \<open>
  JavaScript holds a \<open>Float32Array\<close> of four samples \<open>[1.0, 0.5, -1.0, 2.0]\<close> at address 7
  while the default stream is open; in the second state \<open>setStreamVolume(1, 3.0)\<close> has been
  called as well.
\<close>

definition state_with_buffer :: state where
  "state_with_buffer =
     state_default_open\<lparr>memory := [7 \<mapsto> [0x3F800000, 0x3F000000, 0xBF800000, 0x40000000]]\<rparr>"

text \<open>
  JavaScript also holds the \<open>Int16Array\<close> \<open>[0, 16256, 0, 16384]\<close> at address 8: eight bytes,
  which read as \<open>float\<close>s are \<open>[1.0, 2.0]\<close>.
\<close>

definition state_with_int16_array :: state where
  "state_with_int16_array =
     state_default_open\<lparr>memory := [8 \<mapsto> [0x3F800000, 0x40000000]]\<rparr>"

definition state_with_buffer_loud :: state where
  "state_with_buffer_loud =
     snd (SetStreamVolume [Number number_1, Number number_3] state_with_buffer)"

text \<open>
  A callback stream is open and no event handler was ever registered:
  \<open>openStreamAsync({}, f10)\<close> on the fresh module.
\<close>

definition state_async_no_listener :: state where
  "state_async_no_listener =
     snd (OpenStreamAsync backend_ok [Object Map.empty, Function 10] initial_state)"

text \<open>The arguments of \<open>openStream(-1, 44100, 2, 256)\<close> and of \<open>openStream(0, 44100, 2, 256)\<close>.\<close>

definition args_device_minus_1 :: "napi_value list" where
  "args_device_minus_1 =
     [Number number_minus_1, Number number_44100, Number number_2, Number number_256]"

definition args_device_0 :: "napi_value list" where
  "args_device_0 = [Number number_0, Number number_44100, Number number_2, Number number_256]"

section \<open>Facts about the concrete runs\<close>

lemmas float_defs =
  float_lt_def float_gt_def float_ne_def float_0_def float_1_def float_2_def float_ord_def
  float_isnan_def

lemmas double_defs =
  double_le_def double_gt_def double_0_def double_0_05_def double_44100_def double_ord_def
  double_isnan_def

lemmas number_defs =
  number_minus_1_def number_0_def number_1_def number_2_def number_3_def number_256_def
  number_44100_def

lemma state_default_open_eq:
  "state_default_open =
     \<lparr>g_audioCallbackTsfn = None, g_eventCallbackTsfn = None,
      g_streams = [1 \<mapsto> \<lparr>stream = 100, volume = float_1\<rparr>],
      g_nextStreamId = 2, next_tsfn = 1, memory = Map.empty,
      trace = [Call_Pa_OpenDefaultStream 0 2 paFloat32 double_44100 256,
               Call_Pa_StartStream 100]\<rparr>"
  by (simp add: state_default_open_def OpenDefaultStream_def initial_state_def backend_ok_def
      emit_def register_stream_def paNoError_def Let_def)

lemma state_async_open_eq:
  "state_async_open =
     \<lparr>g_audioCallbackTsfn =
        Some \<lparr>tsfn_addr = 2, jsCallback = 10, resource_name = ''AudioCallback''\<rparr>,
      g_eventCallbackTsfn =
        Some \<lparr>tsfn_addr = 1, jsCallback = 20, resource_name = ''StreamEventCallback''\<rparr>,
      g_streams = [1 \<mapsto> \<lparr>stream = 101, volume = float_1\<rparr>],
      g_nextStreamId = 2, next_tsfn = 3, memory = Map.empty,
      trace = [ThreadSafeFunction_New 1 20 ''StreamEventCallback'',
               ThreadSafeFunction_New 2 10 ''AudioCallback'',
               Call_Pa_OpenStream
                 \<lparr>device = 0, channelCount = 2, sampleFormat = paFloat32,
                  suggestedLatency = double_0_05\<rparr>
                 double_44100 256 paNoFlag True (Some 2),
               Call_Pa_StartStream 101]\<rparr>"
  by (simp add: state_async_open_def OpenStreamAsync_def SetStreamEventCallback_def
      initial_state_def backend_ok_def emit_def register_stream_def paNoError_def Let_def
      arg_def release_event_def new_tsfn_def stream_options_def double_defs)

section \<open>SetStreamVolume\<close>

text \<open>
  The two tests of the source, run one after the other on the same variable, compute the
  clamp of the specification: after \<open>volume = 0.0f\<close> the second test cannot fire, because
  \<open>0.0f > 2.0f\<close> is false.
\<close>

lemma two_tests_are_clamp:
  "(if float_gt (if float_lt v float_0 then float_0 else v) float_2 then float_2
    else (if float_lt v float_0 then float_0 else v))
   = spec_clamp v float_0 float_2"
proof -
  have "\<not> float_lt float_2 float_0"
    by (simp add: float_defs)
  then show ?thesis
    by (simp add: spec_clamp_def float_gt_def)
qed

lemma SetStreamVolume_known:
  assumes "g_streams s (Uint32Value i) = Some sinfo"
  shows "SetStreamVolume [Number i, Number x] s =
           (Inr Returns_Undefined,
            s\<lparr>g_streams := (g_streams s)(Uint32Value i \<mapsto>
                 sinfo\<lparr>volume := spec_clamp (FloatValue x) float_0 float_2\<rparr>)\<rparr>)"
  using assms two_tests_are_clamp [of "FloatValue x"]
  by (simp add: SetStreamVolume_def arg_def GetStreamInfoById_def Let_def)

lemma SetStreamVolume_unknown:
  assumes "g_streams s (Uint32Value i) = None"
  shows "SetStreamVolume [Number i, Number x] s = (Inl (Error ''Stream not open''), s)"
  using assms by (simp add: SetStreamVolume_def arg_def GetStreamInfoById_def Let_def)

text \<open>
  C5. For every volume value \<open>v\<close> (a NaN included) and every open stream id,
  \<open>setStreamVolume(id, v)\<close> succeeds and the volume then held by the registry entry of that
  id is \<open>clamp(v, 0.0, 2.0)\<close>; for an id that is not in the registry the call fails with the
  error \<open>Stream not open\<close> (the specification's NotFound) and the state is the one before
  the call.
\<close>

theorem SetStreamVolume_stores_clamp:
  "(g_streams s (Uint32Value i) \<noteq> None \<longrightarrow>
      fst (SetStreamVolume [Number i, Number x] s) = Inr Returns_Undefined
      \<and> map_option volume
            (GetStreamInfoById (snd (SetStreamVolume [Number i, Number x] s)) (Uint32Value i))
          = Some (spec_clamp (FloatValue x) float_0 float_2))
   \<and> (g_streams s (Uint32Value i) = None \<longrightarrow>
        SetStreamVolume [Number i, Number x] s = (Inl (Error ''Stream not open''), s))"
proof (cases "g_streams s (Uint32Value i)")
  case None
  then show ?thesis by (simp add: SetStreamVolume_unknown)
next
  case (Some sinfo)
  then show ?thesis by (simp add: SetStreamVolume_known GetStreamInfoById_def)
qed

text \<open>
  \<open>setStreamVolume(1, 3.0)\<close> on the open default stream reads back \<open>2.0\<close>, and
  \<open>setStreamVolume(2, 3.0)\<close>, on an id that is not open, fails and changes nothing.
\<close>

theorem SetStreamVolume_stores_clamp_witness:
  "fst (SetStreamVolume [Number number_1, Number number_3] state_default_open)
     = Inr Returns_Undefined
   \<and> map_option volume
        (GetStreamInfoById
           (snd (SetStreamVolume [Number number_1, Number number_3] state_default_open)) 1)
      = Some float_2
   \<and> SetStreamVolume [Number number_2, Number number_3] state_default_open
      = (Inl (Error ''Stream not open''), state_default_open)"
proof -
  have known: "g_streams state_default_open (Uint32Value number_1) \<noteq> None"
    by (simp add: state_default_open_eq number_defs)
  have unknown: "g_streams state_default_open (Uint32Value number_2) = None"
    by (simp add: state_default_open_eq number_defs)
  have clamp: "spec_clamp (FloatValue number_3) float_0 float_2 = float_2"
    by (simp add: spec_clamp_def number_defs float_defs)
  have one: "Uint32Value number_1 = 1"
    by (simp add: number_defs)
  show ?thesis
    using SetStreamVolume_stores_clamp [of state_default_open number_1 number_3]
      SetStreamVolume_stores_clamp [of state_default_open number_2 number_3]
      known unknown clamp one
    by simp
qed

text \<open>
  C10. For every open stream id and every value, \<open>setStreamVolume\<close> changes the volume field
  of that id's registry entry and nothing else: the entry keeps its backend stream, every
  other registry entry is the same, both bridge bindings are the same, and so are the id
  counter, the buffers and the trace of backend calls.
\<close>

theorem SetStreamVolume_frame:
  assumes "g_streams s (Uint32Value i) = Some sinfo"
      and "s' = snd (SetStreamVolume [Number i, Number x] s)"
  shows "map_option stream (g_streams s' (Uint32Value i)) = Some (stream sinfo)
         \<and> (\<forall>k. k \<noteq> Uint32Value i \<longrightarrow> g_streams s' k = g_streams s k)
         \<and> g_audioCallbackTsfn s' = g_audioCallbackTsfn s
         \<and> g_eventCallbackTsfn s' = g_eventCallbackTsfn s
         \<and> g_nextStreamId s' = g_nextStreamId s
         \<and> next_tsfn s' = next_tsfn s
         \<and> memory s' = memory s
         \<and> trace s' = trace s"
  using assms by (simp add: SetStreamVolume_known)

theorem SetStreamVolume_frame_witness:
  "map_option stream
     (g_streams (snd (SetStreamVolume [Number number_1, Number number_3] state_async_open)) 1)
     = Some 101
   \<and> g_audioCallbackTsfn (snd (SetStreamVolume [Number number_1, Number number_3] state_async_open))
     = Some \<lparr>tsfn_addr = 2, jsCallback = 10, resource_name = ''AudioCallback''\<rparr>
   \<and> g_eventCallbackTsfn (snd (SetStreamVolume [Number number_1, Number number_3] state_async_open))
     = Some \<lparr>tsfn_addr = 1, jsCallback = 20, resource_name = ''StreamEventCallback''\<rparr>"
proof -
  have known: "g_streams state_async_open (Uint32Value number_1)
                 = Some \<lparr>stream = 101, volume = float_1\<rparr>"
    by (simp add: state_async_open_eq number_defs)
  have one: "Uint32Value number_1 = 1"
    by (simp add: number_defs)
  show ?thesis
    using SetStreamVolume_frame [OF known refl, of number_3] one
    by (simp add: state_async_open_eq)
qed

lemma state_with_buffer_eq:
  "state_with_buffer =
     \<lparr>g_audioCallbackTsfn = None, g_eventCallbackTsfn = None,
      g_streams = [1 \<mapsto> \<lparr>stream = 100, volume = float_1\<rparr>],
      g_nextStreamId = 2, next_tsfn = 1,
      memory = [7 \<mapsto> [0x3F800000, 0x3F000000, 0xBF800000, 0x40000000]],
      trace = [Call_Pa_OpenDefaultStream 0 2 paFloat32 double_44100 256,
               Call_Pa_StartStream 100]\<rparr>"
  by (simp add: state_with_buffer_def state_default_open_eq)

lemma state_with_buffer_loud_eq:
  "state_with_buffer_loud =
     \<lparr>g_audioCallbackTsfn = None, g_eventCallbackTsfn = None,
      g_streams = [1 \<mapsto> \<lparr>stream = 100, volume = float_2\<rparr>],
      g_nextStreamId = 2, next_tsfn = 1,
      memory = [7 \<mapsto> [0x3F800000, 0x3F000000, 0xBF800000, 0x40000000]],
      trace = [Call_Pa_OpenDefaultStream 0 2 paFloat32 double_44100 256,
               Call_Pa_StartStream 100]\<rparr>"
proof -
  have "g_streams state_with_buffer (Uint32Value number_1)
          = Some \<lparr>stream = 100, volume = float_1\<rparr>"
    by (simp add: state_with_buffer_eq number_defs)
  moreover have "spec_clamp (FloatValue number_3) float_0 float_2 = float_2"
    by (simp add: spec_clamp_def number_defs float_defs)
  moreover have "Uint32Value number_1 = 1"
    by (simp add: number_defs)
  ultimately show ?thesis
    by (simp add: state_with_buffer_loud_def SetStreamVolume_known)
       (simp add: state_with_buffer_eq)
qed

section \<open>WriteStream\<close>

text \<open>
  The loop of \<open>WriteStream\<close>, started at \<open>i\<close> on a buffer of \<open>len\<close> samples, leaves the first
  \<open>i\<close> samples alone and multiplies each of the others by the volume, once.
\<close>

lemma scale_loop_from:
  "len = length data \<Longrightarrow>
   scale_loop mul i len vol data = take i data @ map (\<lambda>x. mul x vol) (drop i data)"
proof (induction mul i len vol data rule: scale_loop.induct)
  case (1 mul i len vol data)
  show ?case
  proof (cases "i < len")
    case True
    with 1 show ?thesis
      by (subst scale_loop.simps)
         (simp add: take_Suc_conv_app_nth Cons_nth_drop_Suc [symmetric])
  next
    case False
    with 1 show ?thesis
      by (subst scale_loop.simps) simp
  qed
qed

lemma scale_loop_map:
  "scale_loop mul 0 (length data) vol data = map (\<lambda>x. mul x vol) data"
  by (simp add: scale_loop_from)

lemma write_data_trace:
  assumes "memory s a = Some samples" and "samples \<noteq> []"
  shows "trace (snd (write_data mul pa sinfo a s)) =
           trace s @ [Call_Pa_WriteStream (stream sinfo)
                        (if float_ne (volume sinfo) float_1
                         then map (\<lambda>x. mul x (volume sinfo)) samples else samples)
                        (length samples div 2)]"
  using assms by (simp add: write_data_def Let_def emit_def scale_loop_map)

lemma IsBuffer_iff: "IsBuffer v \<longleftrightarrow> (\<exists>a. v = Buffer a) \<or> (\<exists>ty a. v = TypedArray ty a)"
  by (cases v) simp_all

lemma WriteStream_known:
  assumes "g_streams s (Uint32Value i) = Some sinfo"
      and "buf = Buffer a \<or> buf = TypedArray ty a"
  shows "WriteStream mul pa [buf, Number i] s = write_data mul pa sinfo a s"
  using assms by (auto simp: WriteStream_def arg_def GetStreamInfoById_def)

text \<open>
  C4. For every open stream id and every non-empty sample sequence (a \<open>Buffer\<close> or a
  \<open>Float32Array\<close> of floats), \<open>writeStream(samples, id)\<close> hands the backend write primitive,
  when the stream's volume is \<open>2.0f\<close>, a buffer in which every sample is the \<open>float\<close>
  product of the original sample and \<open>2.0f\<close>, and, when the volume is \<open>1.0f\<close>, a buffer with
  the very bits of the input: the loop is skipped. This holds whatever the backend then
  answers.
\<close>

theorem WriteStream_applies_volume:
  assumes "g_streams s (Uint32Value i) = Some sinfo"
      and "buf = Buffer a \<or> buf = TypedArray napi_float32_array a"
      and "memory s a = Some samples" and "samples \<noteq> []"
  shows "(volume sinfo = float_2 \<longrightarrow>
            trace (snd (WriteStream mul pa [buf, Number i] s)) =
              trace s @ [Call_Pa_WriteStream (stream sinfo) (map (\<lambda>x. mul x float_2) samples)
                           (length samples div 2)])
       \<and> (volume sinfo = float_1 \<longrightarrow>
            trace (snd (WriteStream mul pa [buf, Number i] s)) =
              trace s @ [Call_Pa_WriteStream (stream sinfo) samples (length samples div 2)])"
proof -
  have ne: "float_ne float_2 float_1" and eq: "\<not> float_ne float_1 float_1"
    by (simp_all add: float_defs)
  show ?thesis
    using ne eq
    by (simp add: WriteStream_known [OF assms(1,2)] write_data_trace [OF assms(3,4)])
qed

text \<open>
  Writing \<open>[1.0, 0.5, -1.0, 2.0]\<close> to stream 1 at volume \<open>2.0\<close> passes
  \<open>[2.0, 1.0, -2.0, 4.0]\<close>; at volume \<open>1.0\<close> it passes the four samples as they are.
\<close>

theorem WriteStream_applies_volume_witness:
  "trace (snd (WriteStream example_mul backend_ok
                 [TypedArray napi_float32_array 7, Number number_1] state_with_buffer_loud))
     = trace state_with_buffer_loud
       @ [Call_Pa_WriteStream 100 [0x40000000, 0x3F800000, 0xC0000000, 0x40800000] 2]
   \<and> trace (snd (WriteStream example_mul backend_ok
                   [TypedArray napi_float32_array 7, Number number_1] state_with_buffer))
     = trace state_with_buffer
       @ [Call_Pa_WriteStream 100 [0x3F800000, 0x3F000000, 0xBF800000, 0x40000000] 2]"
proof -
  let ?samples = "[0x3F800000, 0x3F000000, 0xBF800000, 0x40000000] :: float list"
  have loud: "g_streams state_with_buffer_loud (Uint32Value number_1)
                = Some \<lparr>stream = 100, volume = float_2\<rparr>"
    by (simp add: state_with_buffer_loud_eq number_defs)
  have plain: "g_streams state_with_buffer (Uint32Value number_1)
                 = Some \<lparr>stream = 100, volume = float_1\<rparr>"
    by (simp add: state_with_buffer_eq number_defs)
  have buf: "TypedArray napi_float32_array 7 = Buffer 7
             \<or> TypedArray napi_float32_array 7 = TypedArray napi_float32_array 7"
    by simp
  have mem_loud: "memory state_with_buffer_loud 7 = Some ?samples"
    by (simp add: state_with_buffer_loud_eq)
  have mem_plain: "memory state_with_buffer 7 = Some ?samples"
    by (simp add: state_with_buffer_eq)
  have ne: "?samples \<noteq> []"
    by simp
  have products: "map (\<lambda>x. example_mul x float_2) ?samples
                    = [0x40000000, 0x3F800000, 0xC0000000, 0x40800000]"
    by (simp add: example_mul_def float_2_def)
  show ?thesis
    using WriteStream_applies_volume [OF loud buf mem_loud ne, of example_mul backend_ok]
      WriteStream_applies_volume [OF plain buf mem_plain ne, of example_mul backend_ok]
      products
    by simp
qed

text \<open>
  C9. For every call of \<open>writeStream\<close> that succeeds, the first argument is a \<open>Buffer\<close> or a
  typed array, the samples are the \<open>float\<close>s the code reads from it (its bytes, four to a
  \<open>float\<close>; for a \<open>Float32Array\<close> its elements), there is at least one, and the call makes
  exactly one backend call: \<open>Pa_WriteStream\<close> on the stream of the id, with a buffer of as
  many samples and with the frame count the number of samples divided by two (the stereo
  interleave).
\<close>

theorem WriteStream_frame_count:
  assumes "WriteStream mul pa info s = (Inr Returns_Undefined, s')"
  shows "\<exists>a samples sinfo data.
           IsBuffer (arg info 0) \<and> Data (arg info 0) = a
           \<and> memory s a = Some samples \<and> samples \<noteq> []
           \<and> g_streams s (Uint32Value (As_Number (arg info 1))) = Some sinfo
           \<and> length data = length samples
           \<and> trace s' = trace s
                 @ [Call_Pa_WriteStream (stream sinfo) data (length samples div 2)]"
proof -
  from assms obtain sinfo
    where entry: "g_streams s (Uint32Value (As_Number (arg info 1))) = Some sinfo"
    by (auto simp: WriteStream_def GetStreamInfoById_def Let_def
        split: if_splits option.splits)
  have no_second_branch: "IsBuffer (arg info 0)" if "IsTypedArray (arg info 0)"
    using that by (cases "arg info 0") simp_all
  from assms entry have buffer: "IsBuffer (arg info 0)"
    and run: "write_data mul pa sinfo (Data (arg info 0)) s = (Inr Returns_Undefined, s')"
    using no_second_branch
    by (auto simp: WriteStream_def GetStreamInfoById_def Let_def split: if_splits)
  from run obtain samples
    where mem: "memory s (Data (arg info 0)) = Some samples" and ne: "samples \<noteq> []"
    by (auto simp: write_data_def Let_def split: option.splits if_splits)
  from run mem ne have
    "trace s' = trace s
       @ [Call_Pa_WriteStream (stream sinfo)
            (if float_ne (volume sinfo) float_1
             then map (\<lambda>x. mul x (volume sinfo)) samples else samples)
            (length samples div 2)]"
    using write_data_trace [OF mem ne, of mul pa sinfo] by simp
  moreover have
    "length (if float_ne (volume sinfo) float_1
             then map (\<lambda>x. mul x (volume sinfo)) samples else samples) = length samples"
    by simp
  ultimately show ?thesis
    using buffer mem ne entry by blast
qed

text \<open>A write of four samples to the open stereo stream passes the frame count 2.\<close>

theorem WriteStream_frame_count_witness:
  "\<exists>data.
     trace (snd (WriteStream example_mul backend_ok [Buffer 7, Number number_1] state_with_buffer))
       = trace state_with_buffer @ [Call_Pa_WriteStream 100 data 2]"
proof -
  have run: "WriteStream example_mul backend_ok [Buffer 7, Number number_1] state_with_buffer
               = (Inr Returns_Undefined,
                  snd (WriteStream example_mul backend_ok [Buffer 7, Number number_1]
                         state_with_buffer))"
    by (simp add: WriteStream_def write_data_def arg_def GetStreamInfoById_def Let_def
        state_with_buffer_eq number_defs backend_ok_def paNoError_def float_defs)
  have mem: "memory state_with_buffer 7
               = Some [0x3F800000, 0x3F000000, 0xBF800000, 0x40000000]"
    by (simp add: state_with_buffer_eq)
  have entry: "g_streams state_with_buffer (Uint32Value number_1)
                 = Some \<lparr>stream = 100, volume = float_1\<rparr>"
    by (simp add: state_with_buffer_eq number_defs)
  from WriteStream_frame_count [OF run] mem entry show ?thesis
    by (auto simp: arg_def)
qed

text \<open>
  The same write with the \<open>Int16Array\<close> of four elements succeeds as well: the eight bytes
  are two \<open>float\<close>s and the frame count is 1.
\<close>

lemma WriteStream_Int16Array:
  "WriteStream example_mul backend_ok [TypedArray napi_int16_array 8, Number number_1]
     state_with_int16_array
   = (Inr Returns_Undefined,
      state_with_int16_array\<lparr>trace := trace state_with_int16_array
        @ [Call_Pa_WriteStream 100 [0x3F800000, 0x40000000] 1]\<rparr>)"
  by (simp add: WriteStream_def write_data_def arg_def GetStreamInfoById_def Let_def
      state_with_int16_array_def state_default_open_eq number_defs backend_ok_def
      paNoError_def float_defs emit_def)

section \<open>Opening a stream\<close>

lemma state_async_no_listener_eq:
  "state_async_no_listener =
     \<lparr>g_audioCallbackTsfn =
        Some \<lparr>tsfn_addr = 1, jsCallback = 10, resource_name = ''AudioCallback''\<rparr>,
      g_eventCallbackTsfn = None,
      g_streams = [1 \<mapsto> \<lparr>stream = 101, volume = float_1\<rparr>],
      g_nextStreamId = 2, next_tsfn = 2, memory = Map.empty,
      trace = [ThreadSafeFunction_New 1 10 ''AudioCallback'',
               Call_Pa_OpenStream
                 \<lparr>device = 0, channelCount = 2, sampleFormat = paFloat32,
                  suggestedLatency = double_0_05\<rparr>
                 double_44100 256 paNoFlag True (Some 1),
               Call_Pa_StartStream 101]\<rparr>"
  by (simp add: state_async_no_listener_def OpenStreamAsync_def initial_state_def
      backend_ok_def emit_def register_stream_def paNoError_def Let_def arg_def new_tsfn_def
      stream_options_def double_defs)

lemma frames_zero: "((ucast (w :: 32 word)) :: 64 word) = 0 \<longleftrightarrow> w = 0"
proof
  assume "(ucast w :: 64 word) = 0"
  then have "(ucast (ucast w :: 64 word) :: 32 word) = ucast (0 :: 64 word)"
    by (rule arg_cong)
  then show "w = 0"
    by (simp add: ucast_up_ucast_id is_up)
next
  assume "w = 0"
  then show "(ucast w :: 64 word) = 0"
    by simp
qed

text \<open>
  C8. For every call \<open>openStream(device, sampleRate, channels, framesPerBuffer)\<close> on four
  numbers of which one is invalid (the device index is negative or not below the device
  count, the channel count is not positive, the sample rate is not positive, or the frame
  count is zero), the call throws one of the four validation errors of the source (the
  specification's InvalidArgument) and the state is the one before the call: the registry
  is unchanged and the trace has no new entry, so no backend stream call was made.
\<close>

theorem OpenStream_rejects_invalid_arguments:
  assumes "Int32Value d < 0 \<or> Pa_GetDeviceCount pa \<le> Int32Value d \<or> Int32Value c \<le> 0
           \<or> double_le (DoubleValue r) double_0 \<or> Uint32Value f = 0"
  shows "\<exists>msg. OpenStream pa [Number d, Number r, Number c, Number f] s = (Inl (Error msg), s)
          \<and> msg \<in> {''Invalid device index: '' @ to_string (Int32Value d)
                       @ ''. Available devices: 0-'' @ to_string (Pa_GetDeviceCount pa - 1),
                     ''Channel count must be positive'', ''Sample rate must be positive'',
                     ''framesPerBuffer must be positive''}"
  using assms
  by (auto simp: OpenStream_def arg_def Let_def frames_zero)

text \<open>
  \<open>openStream(-1, 44100, 2, 256)\<close> on the fresh module, with two devices present, throws
  and registers nothing.
\<close>

theorem OpenStream_rejects_invalid_arguments_witness:
  "Int32Value number_minus_1 < 0
   \<and> (\<exists>msg. OpenStream backend_ok args_device_minus_1 initial_state
               = (Inl (Error msg), initial_state))
   \<and> g_streams initial_state = Map.empty"
  using OpenStream_rejects_invalid_arguments
          [of number_minus_1 backend_ok number_2 number_44100 number_256 initial_state]
  by (auto simp: number_minus_1_def args_device_minus_1_def initial_state_def)

lemma OpenStream_minus_1_message:
  "OpenStream backend_ok args_device_minus_1 initial_state
     = (Inl (Error ''Invalid device index: -1. Available devices: 0-1''), initial_state)"
  by (simp add: OpenStream_def args_device_minus_1_def arg_def Let_def number_defs
      backend_ok_def to_string_def digits.simps)

text \<open>
  \<open>OpenDefaultStream\<close> and \<open>OpenStreamAsync\<close> start with the test
  \<open>g_streams.size() > 0\<close>: with a stream in the registry they throw
  \<open>Stream already open\<close> and leave the state as it was.
\<close>

lemma OpenDefaultStream_already_open:
  "g_streams s \<noteq> Map.empty \<Longrightarrow>
   OpenDefaultStream pa info s = (Inl (Error ''Stream already open''), s)"
  by (simp add: OpenDefaultStream_def)

lemma OpenStreamAsync_already_open:
  "g_streams s \<noteq> Map.empty \<Longrightarrow>
   OpenStreamAsync pa info s = (Inl (Error ''Stream already open''), s)"
  by (simp add: OpenStreamAsync_def)

text \<open>
  C1. \<open>OpenStream\<close> has no such test. With the default stream open under id 1,
  \<open>openStream(0, 44100, 2, 256)\<close> succeeds, returns id 2 and leaves two streams in the
  registry, where the claim wants the call to fail and at most one stream to be open.
\<close>

theorem OpenStream_opens_a_second_stream:
  "g_streams state_default_open = [1 \<mapsto> \<lparr>stream = 100, volume = float_1\<rparr>]
   \<and> fst (OpenStream backend_ok args_device_0 state_default_open) = Inr (Returns_Number 2)
   \<and> g_streams (snd (OpenStream backend_ok args_device_0 state_default_open))
     = [1 \<mapsto> \<lparr>stream = 100, volume = float_1\<rparr>, 2 \<mapsto> \<lparr>stream = 101, volume = float_1\<rparr>]"
  by (simp add: OpenStream_def args_device_0_def arg_def Let_def number_defs backend_ok_def
      state_default_open_eq double_defs emit_def register_stream_def paNoError_def)

theorem OpenStream_opens_a_second_stream_witness:
  "dom (g_streams (snd (OpenStream backend_ok args_device_0 state_default_open))) = {1, 2}"
  using OpenStream_opens_a_second_stream by auto

section \<open>Closing a stream\<close>

lemma emit_fields [simp]:
  "g_audioCallbackTsfn (emit e s) = g_audioCallbackTsfn s"
  "g_eventCallbackTsfn (emit e s) = g_eventCallbackTsfn s"
  "g_streams (emit e s) = g_streams s"
  "g_nextStreamId (emit e s) = g_nextStreamId s"
  "next_tsfn (emit e s) = next_tsfn s"
  "memory (emit e s) = memory s"
  "trace (emit e s) = trace s @ [e]"
  by (simp_all add: emit_def)

lemma release_audio_fields [simp]:
  "g_audioCallbackTsfn (release_audio s) = None"
  "g_eventCallbackTsfn (release_audio s) = g_eventCallbackTsfn s"
  "g_streams (release_audio s) = g_streams s"
  by (simp_all add: release_audio_def split: option.splits)

lemma release_event_fields [simp]:
  "g_eventCallbackTsfn (release_event s) = None"
  "g_audioCallbackTsfn (release_event s) = g_audioCallbackTsfn s"
  "g_streams (release_event s) = g_streams s"
  by (simp_all add: release_event_def split: option.splits)

lemma CloseStream_unknown:
  "g_streams s (Uint32Value i) = None \<Longrightarrow>
   CloseStream pa [Number i] s = (Inr Returns_Undefined, s)"
  by (simp add: CloseStream_def arg_def GetStreamInfoById_def)

lemma CloseStream_known:
  assumes "g_streams s (Uint32Value i) = Some sinfo"
      and "err = (if Pa_StopStream pa (stream sinfo) = paNoError
                  then Pa_CloseStream pa (stream sinfo) else Pa_StopStream pa (stream sinfo))"
  shows "g_streams (snd (CloseStream pa [Number i] s)) = (g_streams s)(Uint32Value i := None)"
    and "g_audioCallbackTsfn (snd (CloseStream pa [Number i] s)) = None"
    and "g_eventCallbackTsfn (snd (CloseStream pa [Number i] s)) = None"
    and "fst (CloseStream pa [Number i] s) =
           (if err = paNoError then Inr Returns_Undefined
            else Inl (Error (Pa_GetErrorText pa err)))"
  using assms
  by (simp_all add: CloseStream_def arg_def GetStreamInfoById_def Let_def)

text \<open>
  C2, as stated, fails: \<open>CloseStream\<close> ends with
  \<open>if (err != paNoError) { ...ThrowAsJavaScriptException(); }\<close>. With the default stream
  open and a backend whose \<open>Pa_StopStream\<close> fails, \<open>closeStream(1)\<close> throws the backend's
  error text.
\<close>

theorem CloseStream_throws_backend_failure:
  "g_streams state_default_open (Uint32Value number_1)
     = Some \<lparr>stream = 100, volume = float_1\<rparr>
   \<and> fst (CloseStream backend_stop_fails [Number number_1] state_default_open)
     = Inl (Error ''Unanticipated host error'')"
  by (simp add: CloseStream_def arg_def GetStreamInfoById_def Let_def state_default_open_eq
      number_defs backend_stop_fails_def backend_ok_def paNoError_def)

text \<open>
  C2, amended. For an id that is not in the registry \<open>closeStream(id)\<close> does nothing and
  throws nothing. For an id that is in the registry it removes the entry and releases both
  bridge bindings whatever the backend answers, and then throws the backend's error text
  exactly when \<open>Pa_StopStream\<close> failed or, \<open>Pa_StopStream\<close> having succeeded,
  \<open>Pa_CloseStream\<close> failed.
\<close>

theorem CloseStream_cleans_up_then_reports:
  "(g_streams s (Uint32Value i) = None \<longrightarrow>
      CloseStream pa [Number i] s = (Inr Returns_Undefined, s))
   \<and> (\<forall>sinfo. g_streams s (Uint32Value i) = Some sinfo \<longrightarrow>
        g_streams (snd (CloseStream pa [Number i] s)) = (g_streams s)(Uint32Value i := None)
        \<and> g_audioCallbackTsfn (snd (CloseStream pa [Number i] s)) = None
        \<and> g_eventCallbackTsfn (snd (CloseStream pa [Number i] s)) = None
        \<and> fst (CloseStream pa [Number i] s) =
            (let stop = Pa_StopStream pa (stream sinfo);
                 err = (if stop = paNoError then Pa_CloseStream pa (stream sinfo) else stop)
             in if err = paNoError then Inr Returns_Undefined
                else Inl (Error (Pa_GetErrorText pa err))))"
proof -
  have "CloseStream pa [Number i] s = (Inr Returns_Undefined, s)"
    if "g_streams s (Uint32Value i) = None"
    using that by (rule CloseStream_unknown)
  moreover have
    "g_streams (snd (CloseStream pa [Number i] s)) = (g_streams s)(Uint32Value i := None)
     \<and> g_audioCallbackTsfn (snd (CloseStream pa [Number i] s)) = None
     \<and> g_eventCallbackTsfn (snd (CloseStream pa [Number i] s)) = None
     \<and> fst (CloseStream pa [Number i] s) =
         (let stop = Pa_StopStream pa (stream sinfo);
              err = (if stop = paNoError then Pa_CloseStream pa (stream sinfo) else stop)
          in if err = paNoError then Inr Returns_Undefined
             else Inl (Error (Pa_GetErrorText pa err)))"
    if "g_streams s (Uint32Value i) = Some sinfo" for sinfo
    using CloseStream_known [OF that refl, of pa] by (simp add: Let_def)
  ultimately show ?thesis
    by blast
qed

text \<open>
  With the callback stream open and a listener registered, \<open>closeStream(1)\<close> on a backend
  whose \<open>Pa_StopStream\<close> fails empties the registry, releases both bindings and throws;
  \<open>closeStream(2)\<close> does nothing.
\<close>

theorem CloseStream_cleans_up_then_reports_witness:
  "g_streams (snd (CloseStream backend_stop_fails [Number number_1] state_async_open))
     = Map.empty
   \<and> g_audioCallbackTsfn (snd (CloseStream backend_stop_fails [Number number_1] state_async_open))
     = None
   \<and> g_eventCallbackTsfn (snd (CloseStream backend_stop_fails [Number number_1] state_async_open))
     = None
   \<and> fst (CloseStream backend_stop_fails [Number number_1] state_async_open)
     = Inl (Error ''Unanticipated host error'')
   \<and> CloseStream backend_stop_fails [Number number_2] state_async_open
     = (Inr Returns_Undefined, state_async_open)"
proof -
  have known: "g_streams state_async_open (Uint32Value number_1)
                 = Some \<lparr>stream = 101, volume = float_1\<rparr>"
    by (simp add: state_async_open_eq number_defs)
  have unknown: "g_streams state_async_open (Uint32Value number_2) = None"
    by (simp add: state_async_open_eq number_defs)
  have removed: "(g_streams state_async_open)(Uint32Value number_1 := None) = Map.empty"
    by (simp add: state_async_open_eq number_defs)
  have stop: "Pa_StopStream backend_stop_fails 101 = - 9999"
    and msg: "Pa_GetErrorText backend_stop_fails (- 9999) = ''Unanticipated host error''"
    by (simp_all add: backend_stop_fails_def backend_ok_def)
  show ?thesis
    using CloseStream_cleans_up_then_reports [of state_async_open number_1 backend_stop_fails]
      CloseStream_cleans_up_then_reports [of state_async_open number_2 backend_stop_fails]
      known unknown removed stop msg
    by (simp add: paNoError_def)
qed

section \<open>The audio callback\<close>

text \<open>
  When neither global owns a thread-safe function, no pointer to one is valid: the callback
  dereferences a null or dangling \<open>userData\<close>.
\<close>

lemma AudioCallback_unbound:
  assumes "g_audioCallbackTsfn s = None" and "g_eventCallbackTsfn s = None"
  shows "AudioCallback out fc flags userData s = (Inl Segfault, s)"
  using assms by (simp add: AudioCallback_def deref_tsfn_def split: option.splits)

lemma AudioCallback_after_CloseStream:
  assumes "g_streams s (Uint32Value i) = Some sinfo"
  shows "AudioCallback out fc flags userData (snd (CloseStream pa [Number i] s))
           = (Inl Segfault, snd (CloseStream pa [Number i] s))"
  using CloseStream_known(2,3) [OF assms refl, of pa]
  by (rule AudioCallback_unbound)

text \<open>
  C3. With the callback stream open, a fill invocation whose \<open>userData\<close> is the fill binding
  (address 2) returns \<open>paContinue\<close>. After \<open>closeStream(1)\<close> both bindings are released, as the
  claim says. A fill invocation made after that, with the \<open>userData\<close> PortAudio still holds,
  does not return \<open>paAbort\<close>: \<open>reset()\<close> has destroyed the object \<open>userData\<close> points to, and
  \<open>AudioCallback\<close> dereferences it without a test. This is so when \<open>Pa_StopStream\<close> failed
  (PortAudio then never closed the stream and keeps calling) and when it succeeded.
\<close>

theorem AudioCallback_after_CloseStream_faults:
  "fst (AudioCallback 0 256 0 (Some 2) state_async_open) = Inr paContinue
   \<and> g_audioCallbackTsfn (snd (CloseStream backend_stop_fails [Number number_1] state_async_open))
     = None
   \<and> g_eventCallbackTsfn (snd (CloseStream backend_stop_fails [Number number_1] state_async_open))
     = None
   \<and> fst (AudioCallback 0 256 0 (Some 2)
            (snd (CloseStream backend_stop_fails [Number number_1] state_async_open)))
     = Inl Segfault
   \<and> fst (AudioCallback 0 256 0 (Some 2)
            (snd (CloseStream backend_ok [Number number_1] state_async_open)))
     = Inl Segfault"
proof -
  have known: "g_streams state_async_open (Uint32Value number_1)
                 = Some \<lparr>stream = 101, volume = float_1\<rparr>"
    by (simp add: state_async_open_eq number_defs)
  have before: "fst (AudioCallback 0 256 0 (Some 2) state_async_open) = Inr paContinue"
    by (simp add: AudioCallback_def deref_tsfn_def BlockingCall_def Let_def
        state_async_open_eq)
  show ?thesis
    using before
      CloseStream_known(2,3) [OF known refl, of backend_stop_fails]
      CloseStream_known(2,3) [OF known refl, of backend_ok]
    by (simp add: AudioCallback_unbound)
qed

lemma EmitStreamEvent_unbound:
  "g_eventCallbackTsfn s = None \<Longrightarrow> EmitStreamEvent etype message s = s"
  by (simp add: EmitStreamEvent_def)

text \<open>
  C6, as stated, fails: \<open>EmitStreamEvent\<close> is guarded by \<open>if (g_eventCallbackTsfn)\<close>. With the
  callback stream open and no listener registered, a fill invocation with the underflow
  flag set queues the fill request and no notification, where the claim expects
  \<open>outputUnderflow\<close>.
\<close>

theorem AudioCallback_without_listener:
  "spec_notifications paOutputUnderflow = [''outputUnderflow'']
   \<and> AudioCallback 0 256 paOutputUnderflow (Some 1) state_async_no_listener =
       (Inr paContinue,
        state_async_no_listener\<lparr>trace := trace state_async_no_listener
          @ [ThreadSafeFunction_BlockingCall 1 (Fill_Buffer 0 512)]\<rparr>)"
  by (simp add: spec_notifications_def paOutputUnderflow_def paOutputOverflow_def
      paPrimingOutput_def AudioCallback_def deref_tsfn_def BlockingCall_def
      EmitStreamEvent_def emit_def Let_def state_async_no_listener_eq)

text \<open>
  C6, amended. For every fill invocation whose \<open>userData\<close> points to a live thread-safe
  function, the invocation queues the fill request and returns \<open>paContinue\<close>; then, while
  an event listener is bound, each of the flags underflow, overflow and priming that is set
  queues exactly one notification on the listener, in that order and with an empty message,
  and nothing else is queued; while no listener is bound, no notification is queued.
\<close>

theorem AudioCallback_notifications:
  assumes "deref_tsfn s userData = Some t"
  shows "AudioCallback out fc flags userData s =
           (Inr paContinue,
            s\<lparr>trace := trace s
                 @ ThreadSafeFunction_BlockingCall (tsfn_addr t) (Fill_Buffer out (fc * 2))
                   # (case g_eventCallbackTsfn s of
                        None \<Rightarrow> []
                      | Some ev \<Rightarrow>
                          map (\<lambda>n. ThreadSafeFunction_BlockingCall (tsfn_addr ev)
                                     (Stream_Event n []))
                            (spec_notifications flags))\<rparr>)"
proof (cases "g_eventCallbackTsfn s")
  case None
  with assms show ?thesis
    by (simp add: AudioCallback_def BlockingCall_def EmitStreamEvent_def emit_def Let_def)
next
  case (Some ev)
  with assms show ?thesis
    by (simp add: AudioCallback_def BlockingCall_def EmitStreamEvent_def emit_def Let_def
        spec_notifications_def)
qed

text \<open>
  Underflow and overflow in one invocation (flags \<open>0x4 | 0x8\<close>), with a listener bound: two
  notifications, \<open>outputUnderflow\<close> then \<open>outputOverflow\<close>.
\<close>

theorem AudioCallback_notifications_witness:
  "AudioCallback 0 256 12 (Some 2) state_async_open =
     (Inr paContinue,
      state_async_open\<lparr>trace := trace state_async_open
        @ [ThreadSafeFunction_BlockingCall 2 (Fill_Buffer 0 512),
           ThreadSafeFunction_BlockingCall 1 (Stream_Event ''outputUnderflow'' []),
           ThreadSafeFunction_BlockingCall 1 (Stream_Event ''outputOverflow'' [])]\<rparr>)"
proof -
  have live: "deref_tsfn state_async_open (Some 2)
                = Some \<lparr>tsfn_addr = 2, jsCallback = 10, resource_name = ''AudioCallback''\<rparr>"
    by (simp add: deref_tsfn_def state_async_open_eq)
  have bound: "g_eventCallbackTsfn state_async_open
                 = Some \<lparr>tsfn_addr = 1, jsCallback = 20,
                         resource_name = ''StreamEventCallback''\<rparr>"
    by (simp add: state_async_open_eq)
  have flags: "spec_notifications 12 = [''outputUnderflow'', ''outputOverflow'']"
    by (simp add: spec_notifications_def paOutputUnderflow_def paOutputOverflow_def
        paPrimingOutput_def)
  show ?thesis
    using AudioCallback_notifications [OF live, of 0 256 12] bound flags
    by simp
qed

section \<open>Opening a callback stream\<close>

text \<open>
  C7. On an empty registry, \<open>openStreamAsync(options, fillCallback)\<close> first creates the
  thread-safe function for \<open>fillCallback\<close> and only then calls \<open>Pa_OpenStream\<close>, passing that
  object as \<open>userData\<close>, and \<open>Pa_StartStream\<close>. If \<open>Pa_OpenStream\<close> fails, the binding is
  released and the backend's error text thrown; if \<open>Pa_StartStream\<close> fails, the stream is
  closed, the binding released and the error text thrown; both times the registry stays
  empty and no fill binding is left. Otherwise the stream is registered under the next id
  with the binding in place.
\<close>

theorem OpenStreamAsync_binds_then_opens:
  assumes "g_streams s = Map.empty"
      and "r = fst (OpenStreamAsync pa [Object opts, Function f] s)"
      and "s' = snd (OpenStreamAsync pa [Object opts, Function f] s)"
      and "t = \<lparr>tsfn_addr = next_tsfn s, jsCallback = f, resource_name = ''AudioCallback''\<rparr>"
      and "stream_options pa opts = (params, rate, frames)"
      and "Pa_OpenStream pa params = (err, st)"
      and "bind = [ThreadSafeFunction_New (tsfn_addr t) f ''AudioCallback'',
                   Call_Pa_OpenStream params rate frames paNoFlag True (Some (tsfn_addr t))]"
  shows "if err \<noteq> paNoError
         then r = Inl (Error (Pa_GetErrorText pa err))
              \<and> trace s' = trace s @ bind @ [ThreadSafeFunction_Release (tsfn_addr t)]
              \<and> g_audioCallbackTsfn s' = None \<and> g_streams s' = Map.empty
         else if Pa_StartStream pa st \<noteq> paNoError
         then r = Inl (Error (Pa_GetErrorText pa (Pa_StartStream pa st)))
              \<and> trace s' = trace s @ bind
                  @ [Call_Pa_StartStream st, Call_Pa_CloseStream st,
                     ThreadSafeFunction_Release (tsfn_addr t)]
              \<and> g_audioCallbackTsfn s' = None \<and> g_streams s' = Map.empty
         else r = Inr (Returns_Number (g_nextStreamId s))
              \<and> trace s' = trace s @ bind @ [Call_Pa_StartStream st]
              \<and> g_audioCallbackTsfn s' = Some t
              \<and> g_streams s' = [g_nextStreamId s \<mapsto> \<lparr>stream = st, volume = float_1\<rparr>]"
  using assms
  by (simp add: OpenStreamAsync_def arg_def Let_def new_tsfn_def emit_def release_audio_def
      register_stream_def)

text \<open>
  \<open>openStreamAsync({}, f10)\<close> on the fresh module, once with a backend whose
  \<open>Pa_OpenStream\<close> fails and once with one whose \<open>Pa_StartStream\<close> fails.
\<close>

theorem OpenStreamAsync_binds_then_opens_witness:
  "fst (OpenStreamAsync backend_open_fails [Object Map.empty, Function 10] initial_state)
     = Inl (Error ''Unanticipated host error'')
   \<and> trace (snd (OpenStreamAsync backend_open_fails [Object Map.empty, Function 10]
                   initial_state))
     = [ThreadSafeFunction_New 1 10 ''AudioCallback'',
        Call_Pa_OpenStream
          \<lparr>device = 0, channelCount = 2, sampleFormat = paFloat32,
           suggestedLatency = double_0_05\<rparr>
          double_44100 256 paNoFlag True (Some 1),
        ThreadSafeFunction_Release 1]
   \<and> g_audioCallbackTsfn
        (snd (OpenStreamAsync backend_open_fails [Object Map.empty, Function 10] initial_state))
     = None
   \<and> g_streams
        (snd (OpenStreamAsync backend_open_fails [Object Map.empty, Function 10] initial_state))
     = Map.empty
   \<and> fst (OpenStreamAsync backend_start_fails [Object Map.empty, Function 10] initial_state)
     = Inl (Error ''Unanticipated host error'')
   \<and> trace (snd (OpenStreamAsync backend_start_fails [Object Map.empty, Function 10]
                   initial_state))
     = [ThreadSafeFunction_New 1 10 ''AudioCallback'',
        Call_Pa_OpenStream
          \<lparr>device = 0, channelCount = 2, sampleFormat = paFloat32,
           suggestedLatency = double_0_05\<rparr>
          double_44100 256 paNoFlag True (Some 1),
        Call_Pa_StartStream 101, Call_Pa_CloseStream 101, ThreadSafeFunction_Release 1]
   \<and> g_audioCallbackTsfn
        (snd (OpenStreamAsync backend_start_fails [Object Map.empty, Function 10] initial_state))
     = None
   \<and> g_streams
        (snd (OpenStreamAsync backend_start_fails [Object Map.empty, Function 10] initial_state))
     = Map.empty"
proof -
  let ?params = "\<lparr>device = 0, channelCount = 2, sampleFormat = paFloat32,
                   suggestedLatency = double_0_05\<rparr>"
  have empty: "g_streams initial_state = Map.empty"
    by (simp add: initial_state_def)
  have options_open: "stream_options backend_open_fails Map.empty = (?params, double_44100, 256)"
    and options_start:
      "stream_options backend_start_fails Map.empty = (?params, double_44100, 256)"
    by (simp_all add: stream_options_def backend_open_fails_def backend_start_fails_def
        backend_ok_def double_defs)
  have open_fails: "Pa_OpenStream backend_open_fails ?params = (- 9999, 0)"
    and open_ok: "Pa_OpenStream backend_start_fails ?params = (0, 101)"
    by (simp_all add: backend_open_fails_def backend_start_fails_def backend_ok_def)
  have answers: "Pa_GetErrorText backend_open_fails (- 9999) = ''Unanticipated host error''"
    "Pa_GetErrorText backend_start_fails (- 9999) = ''Unanticipated host error''"
    "Pa_StartStream backend_start_fails 101 = - 9999"
    by (simp_all add: backend_open_fails_def backend_start_fails_def backend_ok_def)
  have fresh: "next_tsfn initial_state = 1" "trace initial_state = []"
    by (simp_all add: initial_state_def)
  show ?thesis
    using OpenStreamAsync_binds_then_opens
            [OF empty refl refl refl options_open open_fails refl, of 10]
      OpenStreamAsync_binds_then_opens
            [OF empty refl refl refl options_start open_ok refl, of 10]
      answers fresh
    by (simp add: paNoError_def)
qed

end
